theory Spec2Isabelle
  imports Main
begin

section \<open>The DNS record converter \<^verbatim>\<open>dnszoneinfo.py\<close>\<close>

text \<open>
  The script reads a JSON document saved from the provider's DNS page, walks the list under
  \<^verbatim>\<open>Result.CustomHostRecords.Records\<close> and prints one zone-file line per active record
  of a known type. This theory embeds \<^verbatim>\<open>RECORD_TYPES\<close>, \<^verbatim>\<open>parse_dns_info\<close> and the
  \<^verbatim>\<open>__main__\<close> block.

  The decoded document is modelled as the script walks it. On the path that lines 67 to 69
  test (the document itself, the value under \<^verbatim>\<open>Result\<close>, the value under
  \<^verbatim>\<open>CustomHostRecords\<close>) a value is either a mapping or any other JSON value, because the
  test itself behaves differently on the two. Below the path the parts have the types the
  script uses them at: a list of records, a flag, two integers and two texts per record, a
  text for the domain name. Every key may be absent (\<open>None\<close>), at every level. Python
  integers are \<open>int\<close>, Python strings are \<open>string\<close>.
\<close>

subsection \<open>Exceptions\<close>

text \<open>
  The exceptions the script can meet. All five classes derive from Python's
  \<^verbatim>\<open>Exception\<close>: \<^verbatim>\<open>IOError\<close> (an alias of \<^verbatim>\<open>OSError\<close>), \<^verbatim>\<open>KeyError\<close> (a
  \<^verbatim>\<open>LookupError\<close>), \<^verbatim>\<open>TypeError\<close>, \<^verbatim>\<open>json.decoder.JSONDecodeError\<close> (a
  \<^verbatim>\<open>ValueError\<close>), and \<^verbatim>\<open>Exception\<close> itself, raised at line 75. The argument is the
  message, or the missing key of a \<^verbatim>\<open>KeyError\<close>.
\<close>

datatype error =
    IOError string
  | KeyError string
  | TypeError string
  | JSONDecodeError string
  | Exception string

subsection \<open>The decoded document\<close>

text \<open>
  A decoded JSON value (\<^verbatim>\<open>json.loads\<close> gives \<^verbatim>\<open>None\<close>, a \<^verbatim>\<open>bool\<close>, an \<^verbatim>\<open>int\<close>, a
  \<^verbatim>\<open>float\<close>, a \<^verbatim>\<open>str\<close>, a \<^verbatim>\<open>list\<close> or a \<^verbatim>\<open>dict\<close>). A number written with a fraction or
  an exponent is kept as its significand and decimal exponent; the script's behaviour on it
  depends on its type alone.
\<close>

datatype json =
    JNull
  | JBool bool
  | JInt int
  | JFloat int int
  | JStr string
  | JArr "json list"
  | JObj "(string \<times> json) list"

text \<open>
  A value that is not a mapping, and a place of the document that holds either a mapping
  (with the keys the script reads there) or such a value.
\<close>

datatype non_mapping =
    Null
  | Boolean bool
  | Integer int
  | Fraction int int
  | Text string
  | Array "json list"

datatype 'a node = Mapping 'a | Other non_mapping

record raw_record =
  IsActive :: "bool option"
  RecordType :: "int option"
  Data :: "string option"
  Host :: "string option"
  Ttl :: "int option"
  Priority :: "int option"

record domain_basic_details =
  DomainName :: "string option"

record custom_host_records =
  Records :: "raw_record list option"

record result =
  CustomHostRecords :: "custom_host_records node option"
  DomainBasicDetails :: "domain_basic_details option"

record dns_info =
  Result :: "result node option"

text \<open>\<^verbatim>\<open>d[key]\<close> on a dictionary: the value, or \<^verbatim>\<open>KeyError(key)\<close> when the key is absent.\<close>

fun getitem :: "string \<Rightarrow> 'a option \<Rightarrow> error + 'a" where
  "getitem key None = Inl (KeyError key)"
| "getitem key (Some v) = Inr v"

text \<open>
  Python's name of the type of a value that is not a mapping, as the messages of its
  \<^verbatim>\<open>TypeError\<close>s quote it (between single quotes, \<open>CHR 0x27\<close>).
\<close>

fun type_name :: "non_mapping \<Rightarrow> string" where
  "type_name Null = ''NoneType''"
| "type_name (Boolean b) = ''bool''"
| "type_name (Integer i) = ''int''"
| "type_name (Fraction m e) = ''float''"
| "type_name (Text s) = ''str''"
| "type_name (Array xs) = ''list''"

definition quoted :: "string \<Rightarrow> string" where
  "quoted s = [CHR 0x27] @ s @ [CHR 0x27]"

text \<open>\<^verbatim>\<open>key in s\<close> for two strings: \<open>key\<close> occurs in \<open>s\<close> as a substring.\<close>

fun contains_text :: "string \<Rightarrow> string \<Rightarrow> bool" where
  "contains_text key [] = (key = [])"
| "contains_text key (c # s) = (take (length key) (c # s) = key \<or> contains_text key s)"

text \<open>
  \<^verbatim>\<open>key in v\<close> for a string \<open>key\<close> and a value that is not a mapping: the substring test
  on a string, membership on a list (an element equals the string \<open>key\<close> only when it is
  that string), and a \<^verbatim>\<open>TypeError\<close> on \<^verbatim>\<open>None\<close>, a \<^verbatim>\<open>bool\<close> or a number. The
  messages are worded as CPython 3.10 words them.
\<close>

fun contains :: "string \<Rightarrow> non_mapping \<Rightarrow> error + bool" where
  "contains key (Text s) = Inr (contains_text key s)"
| "contains key (Array xs) = Inr (JStr key \<in> set xs)"
| "contains key v =
     Inl (TypeError (''argument of type '' @ quoted (type_name v) @ '' is not iterable''))"

text \<open>\<^verbatim>\<open>v[key]\<close> for a string \<open>key\<close> and a value that is not a mapping: always a \<^verbatim>\<open>TypeError\<close>.\<close>

fun subscript_error :: "non_mapping \<Rightarrow> error" where
  "subscript_error (Text s) = TypeError ''string indices must be integers''"
| "subscript_error (Array xs) = TypeError ''list indices must be integers or slices, not str''"
| "subscript_error v = TypeError (quoted (type_name v) @ '' object is not subscriptable'')"

text \<open>
  \<^verbatim>\<open>key in d\<close> and \<^verbatim>\<open>d[key]\<close> at a place of the document; \<open>field\<close> is the selector of
  the key in the mapping.
\<close>

fun py_in :: "string \<Rightarrow> ('a \<Rightarrow> 'b option) \<Rightarrow> 'a node \<Rightarrow> error + bool" where
  "py_in key field (Mapping m) = Inr (field m \<noteq> None)"
| "py_in key field (Other v) = contains key v"

fun py_getitem :: "string \<Rightarrow> ('a \<Rightarrow> 'b option) \<Rightarrow> 'a node \<Rightarrow> error + 'b" where
  "py_getitem key field (Mapping m) = getitem key (field m)"
| "py_getitem key field (Other v) = Inl (subscript_error v)"

subsection \<open>\<^verbatim>\<open>str\<close> of an integer\<close>

text \<open>
  Python's \<^verbatim>\<open>str(n)\<close> and the f-string \<^verbatim>\<open>f"{n}"\<close> of an integer: the decimal digits,
  most significant first, after a minus sign when \<open>n\<close> is negative.
\<close>

definition digit_char :: "nat \<Rightarrow> char" where
  "digit_char d = ''0123456789'' ! d"

function str_nat :: "nat \<Rightarrow> string" where
  "str_nat n = (if n < 10 then [digit_char n] else str_nat (n div 10) @ [digit_char (n mod 10)])"
  by pat_completeness auto
termination
  by (relation "measure id") auto

declare str_nat.simps [simp del]

definition str_int :: "int \<Rightarrow> string" where
  "str_int i = (if i < 0 then CHR ''-'' # str_nat (nat (- i)) else str_nat (nat i))"

subsection \<open>The record code table\<close>

text \<open>Lines 27 to 38: the dictionary \<^verbatim>\<open>RECORD_TYPES\<close>, as its list of items.\<close>

definition RECORD_TYPES :: "(int \<times> string) list" where
  "RECORD_TYPES =
    [(1, ''A''), (2, ''CNAME''), (3, ''MX''), (5, ''TXT''), (8, ''AAAA''), (9, ''NS''),
     (10, ''URL Redirect''), (11, ''SRV''), (12, ''CAA''), (13, ''ALIAS'')]"

subsection \<open>\<^verbatim>\<open>parse_dns_info\<close>\<close>

text \<open>
  Lines 67 to 72: the three membership tests, short-circuited left to right, each on the
  value the subscripts before it give; the \<^verbatim>\<open>else\<close> branch raises
  \<^verbatim>\<open>KeyError('JSON is in an unexpected format')\<close>. A membership test or a subscript on a
  value that is not a mapping may raise \<^verbatim>\<open>TypeError\<close> instead.
\<close>

definition unexpected_format :: error where
  "unexpected_format = KeyError ''JSON is in an unexpected format''"

definition get_records :: "dns_info node \<Rightarrow> error + raw_record list" where
  "get_records info =
    (case py_in ''Result'' Result info of
       Inl e \<Rightarrow> Inl e
     | Inr False \<Rightarrow> Inl unexpected_format
     | Inr True \<Rightarrow>
    (case py_getitem ''Result'' Result info of
       Inl e \<Rightarrow> Inl e
     | Inr res \<Rightarrow>
    (case py_in ''CustomHostRecords'' CustomHostRecords res of
       Inl e \<Rightarrow> Inl e
     | Inr False \<Rightarrow> Inl unexpected_format
     | Inr True \<Rightarrow>
    (case py_getitem ''CustomHostRecords'' CustomHostRecords res of
       Inl e \<Rightarrow> Inl e
     | Inr chr \<Rightarrow>
    (case py_in ''Records'' Records chr of
       Inl e \<Rightarrow> Inl e
     | Inr False \<Rightarrow> Inl unexpected_format
     | Inr True \<Rightarrow> py_getitem ''Records'' Records chr)))))"

text \<open>Line 96: \<^verbatim>\<open>dns_info['Result']['DomainBasicDetails']['DomainName']\<close>.\<close>

definition get_domain :: "dns_info node \<Rightarrow> error + string" where
  "get_domain info =
    (case py_getitem ''Result'' Result info of
       Inl e \<Rightarrow> Inl e
     | Inr res \<Rightarrow>
        (case py_getitem ''DomainBasicDetails'' DomainBasicDetails res of
           Inl e \<Rightarrow> Inl e
         | Inr details \<Rightarrow> getitem ''DomainName'' (DomainName details)))"

text \<open>
  Lines 78 to 108, the body of the loop for one record: \<open>Inr None\<close> is \<^verbatim>\<open>continue\<close>,
  \<open>Inr (Some item)\<close> is the list handed to \<^verbatim>\<open>items.append\<close>, \<open>Inl e\<close> is an exception
  leaving the function. The lookups stand in the order the script evaluates them:
  \<^verbatim>\<open>IsActive\<close>, \<^verbatim>\<open>RecordType\<close>, \<^verbatim>\<open>Data\<close>, \<^verbatim>\<open>Host\<close>, \<^verbatim>\<open>Priority\<close> (for MX), the
  domain name (for cloudflare), \<^verbatim>\<open>Ttl\<close>. Lines 83 to 86 test the code against the keys of
  \<^verbatim>\<open>RECORD_TYPES\<close> and then read its entry: the lookup \<open>map_of RECORD_TYPES code\<close> is
  \<open>None\<close> exactly when the code is not a key. \<open>CHR 0x22\<close> is the double quote.
\<close>

definition parse_record :: "dns_info node \<Rightarrow> string \<Rightarrow> raw_record \<Rightarrow> error + string list option" where
  "parse_record info output_format record =
    (case getitem ''IsActive'' (IsActive record) of
       Inl e \<Rightarrow> Inl e
     | Inr active \<Rightarrow>
    if \<not> active then Inr None
    else
    (case getitem ''RecordType'' (RecordType record) of
       Inl e \<Rightarrow> Inl e
     | Inr code \<Rightarrow>
    (case map_of RECORD_TYPES code of
       None \<Rightarrow> Inr None
     | Some record_type \<Rightarrow>
    (case getitem ''Data'' (Data record) of
       Inl e \<Rightarrow> Inl e
     | Inr data \<Rightarrow>
    (case getitem ''Host'' (Host record) of
       Inl e \<Rightarrow> Inl e
     | Inr host \<Rightarrow>
    (case (if record_type = ''MX'' then
             (case getitem ''Priority'' (Priority record) of
                Inl e \<Rightarrow> Inl e
              | Inr priority \<Rightarrow> Inr (str_int priority @ '' '' @ data))
           else if record_type = ''TXT'' then Inr ([CHR 0x22] @ data @ [CHR 0x22])
           else Inr data) of
       Inl e \<Rightarrow> Inl e
     | Inr val \<Rightarrow>
    (case (if output_format = ''cloudflare'' then
             (case get_domain info of
                Inl e \<Rightarrow> Inl e
              | Inr domain \<Rightarrow>
                  if host = ''@'' then Inr domain else Inr (host @ ''.'' @ domain @ ''.''))
           else Inr host) of
       Inl e \<Rightarrow> Inl e
     | Inr host' \<Rightarrow>
    (case getitem ''Ttl'' (Ttl record) of
       Inl e \<Rightarrow> Inl e
     | Inr ttl \<Rightarrow> Inr (Some [host', str_int ttl, ''IN'', record_type, val])))))))))"

text \<open>Lines 77 to 110: the loop, with \<open>items\<close> the list built so far.\<close>

fun parse_records :: "dns_info node \<Rightarrow> string \<Rightarrow> string list list \<Rightarrow> raw_record list \<Rightarrow> error + string list list" where
  "parse_records info output_format items [] = Inr items"
| "parse_records info output_format items (record # records) =
    (case parse_record info output_format record of
       Inl e \<Rightarrow> Inl e
     | Inr None \<Rightarrow> parse_records info output_format items records
     | Inr (Some item) \<Rightarrow> parse_records info output_format (items @ [item]) records)"

definition parse_dns_info :: "dns_info node \<Rightarrow> string \<Rightarrow> error + string list list" where
  "parse_dns_info info output_format =
    (case get_records info of
       Inl e \<Rightarrow> Inl e
     | Inr records \<Rightarrow>
        if length records = 0 then Inl (Exception ''No DNS records found in JSON'')
        else parse_records info output_format [] records)"

subsection \<open>The script's entry point\<close>

text \<open>
  \<^verbatim>\<open>str(e)\<close> of an exception, as the handlers format it: the message, and for a
  \<^verbatim>\<open>KeyError\<close> the \<^verbatim>\<open>repr\<close> of its key, which for the keys and the message this script
  raises (letters and spaces only) is the key between two single quotes (\<open>CHR 0x27\<close>).
\<close>

fun str_error :: "error \<Rightarrow> string" where
  "str_error (IOError msg) = msg"
| "str_error (KeyError key) = [CHR 0x27] @ key @ [CHR 0x27]"
| "str_error (TypeError msg) = msg"
| "str_error (JSONDecodeError msg) = msg"
| "str_error (Exception msg) = msg"

text \<open>
  \<^verbatim>\<open>isinstance\<close> against the classes the two \<^verbatim>\<open>except\<close> clauses name. Every class of
  \<open>error\<close> derives from \<^verbatim>\<open>Exception\<close>.
\<close>

fun isinstance_IOError :: "error \<Rightarrow> bool" where
  "isinstance_IOError (IOError msg) = True"
| "isinstance_IOError e = False"

fun isinstance_KeyError :: "error \<Rightarrow> bool" where
  "isinstance_KeyError (KeyError key) = True"
| "isinstance_KeyError e = False"

fun isinstance_JSONDecodeError :: "error \<Rightarrow> bool" where
  "isinstance_JSONDecodeError (JSONDecodeError msg) = True"
| "isinstance_JSONDecodeError e = False"

fun isinstance_Exception :: "error \<Rightarrow> bool" where
  "isinstance_Exception e = True"

text \<open>\<^verbatim>\<open>sep.join(xs)\<close> on a list of strings.\<close>

fun join :: "string \<Rightarrow> string list \<Rightarrow> string" where
  "join sep [] = []"
| "join sep [x] = x"
| "join sep (x # y # ys) = x @ sep @ join sep (y # ys)"

text \<open>
  Lines 114 to 128. The command line (\<^verbatim>\<open>get_args\<close>) gives \<open>filename\<close> and
  \<open>output_format\<close>. The file system and the JSON decoder are the environment of the script:
  \<open>read_file\<close> is \<^verbatim>\<open>open(filename, 'r')\<close> followed by \<^verbatim>\<open>file.read()\<close>, and \<open>json_loads\<close> is
  \<^verbatim>\<open>json.loads\<close>, which raises \<^verbatim>\<open>JSONDecodeError\<close> on a text that is not JSON. The result
  is the list of lines printed, and the exception that leaves the script, if any. The
  \<^verbatim>\<open>except\<close> clauses are tried in the order of the source: first
  \<^verbatim>\<open>(IOError, KeyError, Exception)\<close>, then \<^verbatim>\<open>json.decoder.JSONDecodeError\<close>. \<open>CHR 0x09\<close> is
  the tab.
\<close>

definition try_body ::
  "(string \<Rightarrow> error + string) \<Rightarrow> (string \<Rightarrow> error + dns_info node) \<Rightarrow> string \<Rightarrow> string \<Rightarrow>
     error + string list" where
  "try_body read_file json_loads filename output_format =
    (case read_file filename of
       Inl e \<Rightarrow> Inl e
     | Inr text \<Rightarrow>
        (case json_loads text of
           Inl e \<Rightarrow> Inl e
         | Inr info \<Rightarrow>
            (case parse_dns_info info output_format of
               Inl e \<Rightarrow> Inl e
             | Inr records \<Rightarrow> Inr (map (join [CHR 0x09]) records))))"

definition main ::
  "(string \<Rightarrow> error + string) \<Rightarrow> (string \<Rightarrow> error + dns_info node) \<Rightarrow> string \<Rightarrow> string \<Rightarrow>
     string list \<times> error option" where
  "main read_file json_loads filename output_format =
    (case try_body read_file json_loads filename output_format of
       Inr lines \<Rightarrow> (lines, None)
     | Inl e \<Rightarrow>
        if isinstance_IOError e \<or> isinstance_KeyError e \<or> isinstance_Exception e
        then ([''ERROR: '' @ str_error e], None)
        else if isinstance_JSONDecodeError e
        then ([''ERROR: Unable to decode JSON from '' @ filename @ '': '' @ str_error e], None)
        else ([], Some e))"

section \<open>Notions the properties are stated with\<close>

text \<open>The five fields of an output record, by position.\<close>

definition host_field :: "string list \<Rightarrow> string" where
  "host_field item = item ! 0"

definition ttl_field :: "string list \<Rightarrow> string" where
  "ttl_field item = item ! 1"

definition class_field :: "string list \<Rightarrow> string" where
  "class_field item = item ! 2"

definition type_field :: "string list \<Rightarrow> string" where
  "type_field item = item ! 3"

definition value_field :: "string list \<Rightarrow> string" where
  "value_field item = item ! 4"

text \<open>
  The document has the path to the records: it is a mapping with the key \<^verbatim>\<open>Result\<close>,
  whose value is a mapping with the key \<^verbatim>\<open>CustomHostRecords\<close>, whose value is a mapping
  with the key \<^verbatim>\<open>Records\<close>.
\<close>

definition has_records_path :: "dns_info node \<Rightarrow> bool" where
  "has_records_path info =
    (case info of
       Other v \<Rightarrow> False
     | Mapping d \<Rightarrow>
        (case Result d of
           None \<Rightarrow> False
         | Some (Other v) \<Rightarrow> False
         | Some (Mapping res) \<Rightarrow>
            (case CustomHostRecords res of
               None \<Rightarrow> False
             | Some (Other v) \<Rightarrow> False
             | Some (Mapping chr) \<Rightarrow> Records chr \<noteq> None)))"

text \<open>
  The document is a mapping, and so are the values under \<^verbatim>\<open>Result\<close> and under
  \<^verbatim>\<open>CustomHostRecords\<close> where these keys are present.
\<close>

definition mappings_on_path :: "dns_info node \<Rightarrow> bool" where
  "mappings_on_path info =
    (case info of
       Other v \<Rightarrow> False
     | Mapping d \<Rightarrow>
        (case Result d of
           None \<Rightarrow> True
         | Some (Other v) \<Rightarrow> False
         | Some (Mapping res) \<Rightarrow>
            (case CustomHostRecords res of
               None \<Rightarrow> True
             | Some (Other v) \<Rightarrow> False
             | Some (Mapping chr) \<Rightarrow> True)))"

text \<open>
  An entry that the two tests of lines 79 and 83 skip: its \<^verbatim>\<open>IsActive\<close> is false, or its
  \<^verbatim>\<open>IsActive\<close> is true and its \<^verbatim>\<open>RecordType\<close> is present and not a key of the table.
\<close>

definition skipped :: "raw_record \<Rightarrow> bool" where
  "skipped record =
    (case IsActive record of
       None \<Rightarrow> False
     | Some active \<Rightarrow>
        \<not> active \<or>
        (case RecordType record of
           None \<Rightarrow> False
         | Some code \<Rightarrow> map_of RECORD_TYPES code = None))"

text \<open>
  A record passes both filters of lines 79 and 83: its \<^verbatim>\<open>IsActive\<close> is true and its
  \<^verbatim>\<open>RecordType\<close> is a key of the table.
\<close>

definition emitted :: "raw_record \<Rightarrow> bool" where
  "emitted record =
    (IsActive record = Some True \<and>
     (case RecordType record of None \<Rightarrow> False | Some code \<Rightarrow> map_of RECORD_TYPES code \<noteq> None))"

text \<open>
  A record lacks an attribute that the loop body reads for it: \<^verbatim>\<open>IsActive\<close>; for an
  active record \<^verbatim>\<open>RecordType\<close>; for an active record of a known type \<^verbatim>\<open>Data\<close>,
  \<^verbatim>\<open>Host\<close>, \<^verbatim>\<open>Ttl\<close>, and \<^verbatim>\<open>Priority\<close> when the type is MX.
\<close>

definition lacks_attribute :: "raw_record \<Rightarrow> bool" where
  "lacks_attribute record =
    (case IsActive record of
       None \<Rightarrow> True
     | Some active \<Rightarrow>
        active \<and>
        (case RecordType record of
           None \<Rightarrow> True
         | Some code \<Rightarrow>
            (case map_of RECORD_TYPES code of
               None \<Rightarrow> False
             | Some record_type \<Rightarrow>
                 Data record = None \<or> Host record = None \<or> Ttl record = None \<or>
                 (record_type = ''MX'' \<and> Priority record = None))))"

text \<open>
  Decimal numerals without a sign: digits only, at least one, and no leading zero except
  in \<open>''0''\<close> itself; \<open>decimal_value\<close> reads such a numeral back.
\<close>

definition is_digit :: "char \<Rightarrow> bool" where
  "is_digit c = (c \<in> set ''0123456789'')"

definition digit_value :: "char \<Rightarrow> nat" where
  "digit_value c = of_char c - 48"

definition decimal_value :: "string \<Rightarrow> nat" where
  "decimal_value s = foldl (\<lambda>acc c. 10 * acc + digit_value c) 0 s"

definition unsigned_decimal :: "string \<Rightarrow> bool" where
  "unsigned_decimal s = (s \<noteq> [] \<and> list_all is_digit s \<and> (s = ''0'' \<or> hd s \<noteq> CHR ''0''))"

section \<open>Example documents\<close>

text \<open>
  Concrete records and documents, at which the theorems below are instantiated.
  \<open>document records details\<close> is the document with the given \<^verbatim>\<open>Records\<close> list and the given
  (or absent) \<^verbatim>\<open>DomainBasicDetails\<close>.
\<close>

definition document :: "raw_record list \<Rightarrow> domain_basic_details option \<Rightarrow> dns_info node" where
  "document records details =
    Mapping \<lparr>Result = Some (Mapping
      \<lparr>CustomHostRecords = Some (Mapping \<lparr>Records = Some records\<rparr>),
       DomainBasicDetails = details\<rparr>)\<rparr>"

definition example_com :: "domain_basic_details option" where
  "example_com = Some \<lparr>DomainName = Some ''example.com''\<rparr>"

definition other_org :: "domain_basic_details option" where
  "other_org = Some \<lparr>DomainName = Some ''other.org''\<rparr>"

text \<open>
  Documents without the path: one with no \<^verbatim>\<open>Records\<close> key, the empty object, the JSON texts
  \<^verbatim>\<open>{"Result": null}\<close> and \<^verbatim>\<open>{"Result": "Has CustomHostRecords"}\<close>, and the JSON text
  \<^verbatim>\<open>["Result"]\<close>.
\<close>

definition doc_no_records :: "dns_info node" where
  "doc_no_records =
    Mapping \<lparr>Result = Some (Mapping
      \<lparr>CustomHostRecords = Some (Mapping \<lparr>Records = None\<rparr>),
       DomainBasicDetails = example_com\<rparr>)\<rparr>"

definition doc_empty_object :: "dns_info node" where
  "doc_empty_object = Mapping \<lparr>Result = None\<rparr>"

definition doc_result_null :: "dns_info node" where
  "doc_result_null = Mapping \<lparr>Result = Some (Other Null)\<rparr>"

definition doc_result_text :: "dns_info node" where
  "doc_result_text = Mapping \<lparr>Result = Some (Other (Text ''Has CustomHostRecords''))\<rparr>"

definition doc_array :: "dns_info node" where
  "doc_array = Other (Array [JStr ''Result''])"

definition rec_a_www :: raw_record where
  "rec_a_www = \<lparr>IsActive = Some True, RecordType = Some 1, Data = Some ''1.2.3.4'',
     Host = Some ''www'', Ttl = Some 300, Priority = None\<rparr>"

definition rec_a_apex :: raw_record where
  "rec_a_apex = \<lparr>IsActive = Some True, RecordType = Some 1, Data = Some ''1.2.3.4'',
     Host = Some ''@'', Ttl = Some 300, Priority = None\<rparr>"

definition rec_mx :: raw_record where
  "rec_mx = \<lparr>IsActive = Some True, RecordType = Some 3, Data = Some ''mail.example.com'',
     Host = Some ''@'', Ttl = Some 3600, Priority = Some 10\<rparr>"

definition rec_mx_negative :: raw_record where
  "rec_mx_negative = \<lparr>IsActive = Some True, RecordType = Some 3, Data = Some ''mail.example.com'',
     Host = Some ''@'', Ttl = Some 3600, Priority = Some (- 5)\<rparr>"

definition rec_txt :: raw_record where
  "rec_txt = \<lparr>IsActive = Some True, RecordType = Some 5,
     Data = Some ''v=spf1 include:_spf.example.com ~all'',
     Host = Some ''@'', Ttl = Some 1800, Priority = None\<rparr>"

text \<open>A TXT record whose data is the five characters \<^verbatim>\<open>a"b"c\<close>.\<close>

definition rec_txt_quotes :: raw_record where
  "rec_txt_quotes = \<lparr>IsActive = Some True, RecordType = Some 5,
     Data = Some [CHR ''a'', CHR 0x22, CHR ''b'', CHR 0x22, CHR ''c''],
     Host = Some ''www'', Ttl = Some 60, Priority = None\<rparr>"

definition rec_inactive :: raw_record where
  "rec_inactive = \<lparr>IsActive = Some False, RecordType = Some 1, Data = Some ''5.6.7.8'',
     Host = Some ''old'', Ttl = Some 300, Priority = None\<rparr>"

definition rec_unknown :: raw_record where
  "rec_unknown = \<lparr>IsActive = Some True, RecordType = Some 99, Data = Some ''x'',
     Host = Some ''odd'', Ttl = Some 300, Priority = None\<rparr>"

text \<open>An active A record without \<^verbatim>\<open>Data\<close>, and an inactive record with no other attribute.\<close>

definition rec_no_data :: raw_record where
  "rec_no_data = \<lparr>IsActive = Some True, RecordType = Some 1, Data = None,
     Host = Some ''www'', Ttl = Some 300, Priority = None\<rparr>"



section \<open>Auxiliary facts\<close>

subsection \<open>The decimal rendering\<close>

lemma below_ten: "(d::nat) < 10 \<Longrightarrow> d \<in> {0, 1, 2, 3, 4, 5, 6, 7, 8, 9}"
  by simp arith

lemma digit_char_is_digit: "d < 10 \<Longrightarrow> is_digit (digit_char d)"
  using below_ten [of d] by (auto simp: digit_char_def is_digit_def)

lemma digit_value_digit_char: "d < 10 \<Longrightarrow> digit_value (digit_char d) = d"
  using below_ten [of d] by (auto simp: digit_char_def digit_value_def)

lemma digit_char_zero_iff: "d < 10 \<Longrightarrow> digit_char d = CHR ''0'' \<longleftrightarrow> d = 0"
  using below_ten [of d] by (auto simp: digit_char_def)

lemma str_nat_not_Nil: "str_nat n \<noteq> []"
  by (subst str_nat.simps) simp

lemma str_nat_0: "str_nat 0 = ''0''"
  by (subst str_nat.simps) (simp add: digit_char_def)

lemma str_nat_digits: "list_all is_digit (str_nat n)"
proof (induction n rule: str_nat.induct)
  case (1 n)
  show ?case
  proof (cases "n < 10")
    case True
    then show ?thesis by (subst str_nat.simps) (simp add: digit_char_is_digit)
  next
    case False
    with "1" show ?thesis by (subst str_nat.simps) (simp add: digit_char_is_digit)
  qed
qed

lemma hd_str_nat: "hd (str_nat n) = CHR ''0'' \<longleftrightarrow> n = 0"
proof (induction n rule: str_nat.induct)
  case (1 n)
  show ?case
  proof (cases "n < 10")
    case True
    then show ?thesis by (subst str_nat.simps) (simp add: digit_char_zero_iff)
  next
    case False
    then have "n div 10 \<noteq> 0" by simp
    with False "1" show ?thesis
      by (subst str_nat.simps) (simp add: str_nat_not_Nil)
  qed
qed

lemma decimal_value_snoc: "decimal_value (s @ [c]) = 10 * decimal_value s + digit_value c"
  by (simp add: decimal_value_def)

lemma decimal_value_str_nat: "decimal_value (str_nat n) = n"
proof (induction n rule: str_nat.induct)
  case (1 n)
  show ?case
  proof (cases "n < 10")
    case True
    then show ?thesis
      by (subst str_nat.simps) (simp add: decimal_value_def digit_value_digit_char)
  next
    case False
    with "1" show ?thesis
      by (subst str_nat.simps) (simp add: decimal_value_snoc digit_value_digit_char)
  qed
qed

lemma unsigned_decimal_str_nat: "unsigned_decimal (str_nat n)"
proof (cases "n = 0")
  case True
  then show ?thesis by (simp add: str_nat_0 unsigned_decimal_def is_digit_def)
next
  case False
  then have "hd (str_nat n) \<noteq> CHR ''0''" by (simp add: hd_str_nat)
  then show ?thesis by (simp add: unsigned_decimal_def str_nat_not_Nil str_nat_digits)
qed

subsection \<open>The path to the records and to the domain name\<close>

lemma getitem_Inr_iff: "getitem key x = Inr v \<longleftrightarrow> x = Some v"
  by (cases x) auto

lemma getitem_Inl_iff: "getitem key x = Inl e \<longleftrightarrow> x = None \<and> e = KeyError key"
  by (cases x) auto

lemma getitem_InlD: "getitem key x = Inl e \<Longrightarrow> e = KeyError key"
  by (cases x) auto

lemma py_getitem_Inr_iff:
  "py_getitem key field n = Inr v \<longleftrightarrow> (\<exists>m. n = Mapping m \<and> field m = Some v)"
  by (cases n) (auto simp: getitem_Inr_iff)

lemma py_getitem_InlD:
  "py_getitem key field n = Inl e \<Longrightarrow> e = KeyError key \<or> (\<exists>msg. e = TypeError msg)"
proof (cases n)
  case (Mapping m)
  assume "py_getitem key field n = Inl e"
  with Mapping show ?thesis by (simp add: getitem_Inl_iff)
next
  case (Other v)
  assume "py_getitem key field n = Inl e"
  with Other show ?thesis by (cases v) auto
qed

lemma py_in_InlD: "py_in key field n = Inl e \<Longrightarrow> \<exists>msg. e = TypeError msg"
proof (cases n)
  case (Mapping m)
  assume "py_in key field n = Inl e"
  with Mapping show ?thesis by simp
next
  case (Other v)
  assume "py_in key field n = Inl e"
  with Other show ?thesis by (cases v) auto
qed

lemma py_in_getitem:
  "py_in key field n = Inr True \<Longrightarrow> py_getitem key field n = Inl e \<Longrightarrow> \<exists>msg. e = TypeError msg"
proof (cases n)
  case (Mapping m)
  assume "py_in key field n = Inr True" "py_getitem key field n = Inl e"
  with Mapping show ?thesis by (auto simp: getitem_Inl_iff)
next
  case (Other v)
  assume "py_in key field n = Inr True" "py_getitem key field n = Inl e"
  with Other show ?thesis by (cases v) auto
qed

lemma py_in_Mapping: "py_in key field (Mapping m) = Inr b \<longleftrightarrow> b = (field m \<noteq> None)"
  by auto

lemma get_records_Inr_iff:
  "get_records info = Inr records \<longleftrightarrow>
    (\<exists>d res chr. info = Mapping d \<and> Result d = Some (Mapping res) \<and>
       CustomHostRecords res = Some (Mapping chr) \<and> Records chr = Some records)"
proof
  assume "get_records info = Inr records"
  then obtain res chr where
    "py_getitem ''Result'' Result info = Inr res"
    "py_getitem ''CustomHostRecords'' CustomHostRecords res = Inr chr"
    "py_getitem ''Records'' Records chr = Inr records"
    by (auto simp: get_records_def split: sum.splits bool.splits)
  then show "\<exists>d res chr. info = Mapping d \<and> Result d = Some (Mapping res) \<and>
       CustomHostRecords res = Some (Mapping chr) \<and> Records chr = Some records"
    by (auto simp: py_getitem_Inr_iff)
next
  assume "\<exists>d res chr. info = Mapping d \<and> Result d = Some (Mapping res) \<and>
       CustomHostRecords res = Some (Mapping chr) \<and> Records chr = Some records"
  then show "get_records info = Inr records"
    by (auto simp: get_records_def)
qed

lemma has_records_path_iff: "has_records_path info \<longleftrightarrow> (\<exists>records. get_records info = Inr records)"
  by (auto simp: get_records_Inr_iff has_records_path_def split: node.splits option.splits)

lemma get_records_InlD:
  "get_records info = Inl e \<Longrightarrow> e = unexpected_format \<or> (\<exists>msg. e = TypeError msg)"
  unfolding get_records_def
  by (auto split: sum.splits bool.splits dest: py_in_InlD py_in_getitem)

lemma get_records_mappings:
  assumes "mappings_on_path info" and "get_records info = Inl e"
  shows "e = unexpected_format"
proof -
  from assms(1) obtain d where d: "info = Mapping d"
    by (cases info) (simp_all add: mappings_on_path_def)
  show ?thesis
  proof (cases "Result d")
    case None
    with d assms(2) show ?thesis by (simp add: get_records_def)
  next
    case (Some n)
    note n = this
    with assms(1) d obtain res where res: "n = Mapping res"
      by (cases n) (simp_all add: mappings_on_path_def)
    show ?thesis
    proof (cases "CustomHostRecords res")
      case None
      with d n res assms(2) show ?thesis by (simp add: get_records_def)
    next
      case (Some m)
      note m = this
      with assms(1) d n res obtain chr where chr: "m = Mapping chr"
        by (cases m) (simp_all add: mappings_on_path_def)
      from d n res m chr assms(2) show ?thesis
        by (cases "Records chr") (simp_all add: get_records_def)
    qed
  qed
qed

lemma get_domain_Inr_iff:
  "get_domain info = Inr domain \<longleftrightarrow>
    (\<exists>d res details. info = Mapping d \<and> Result d = Some (Mapping res) \<and>
       DomainBasicDetails res = Some details \<and> DomainName details = Some domain)"
  by (auto simp: get_domain_def py_getitem_Inr_iff getitem_Inr_iff split: sum.splits)


subsection \<open>One record\<close>

lemma getitem_case:
  "(case getitem key x of Inl e \<Rightarrow> Inl e | Inr v \<Rightarrow> f v) =
   (case x of None \<Rightarrow> Inl (KeyError key) | Some v \<Rightarrow> f v)"
  by (cases x) auto

lemma parse_record_SomeD:
  assumes "parse_record info fmt r = Inr (Some item)"
  shows "\<exists>code name data host ttl val host'.
    IsActive r = Some True \<and> RecordType r = Some code \<and>
    map_of RECORD_TYPES code = Some name \<and>
    Data r = Some data \<and> Host r = Some host \<and> Ttl r = Some ttl \<and>
    (if name = ''MX'' then \<exists>p. Priority r = Some p \<and> val = str_int p @ '' '' @ data
     else if name = ''TXT'' then val = [CHR 0x22] @ data @ [CHR 0x22]
     else val = data) \<and>
    (if fmt = ''cloudflare''
     then \<exists>domain. get_domain info = Inr domain \<and>
            host' = (if host = ''@'' then domain else host @ ''.'' @ domain @ ''.'')
     else host' = host) \<and>
    item = [host', str_int ttl, ''IN'', name, val]"
  using assms unfolding parse_record_def getitem_case
  by (simp split: option.splits if_splits sum.splits)

lemma parse_record_None_iff:
  "parse_record info fmt r = Inr None \<longleftrightarrow> \<not> emitted r \<and> \<not> lacks_attribute r"
  unfolding parse_record_def emitted_def lacks_attribute_def getitem_case
  by (simp split: option.splits if_splits sum.splits)





lemma parse_record_emitted_ok:
  assumes "emitted r" and "\<not> lacks_attribute r"
    and "fmt = ''cloudflare'' \<longrightarrow> (\<exists>domain. get_domain info = Inr domain)"
  shows "\<exists>item. parse_record info fmt r = Inr (Some item)"
proof -
  from assms(1) obtain code name where a: "IsActive r = Some True" "RecordType r = Some code"
    "map_of RECORD_TYPES code = Some name"
    by (auto simp: emitted_def split: option.splits)
  with assms(2) obtain data host ttl where b: "Data r = Some data" "Host r = Some host"
    "Ttl r = Some ttl" and c: "name = ''MX'' \<longrightarrow> (\<exists>p. Priority r = Some p)"
    by (auto simp: lacks_attribute_def)
  have d: "\<exists>domain. get_domain info = Inr domain" if "fmt = ''cloudflare''"
    using that assms(3) by simp
  show ?thesis
  proof (cases "name = ''MX''")
    case True
    with c obtain p where "Priority r = Some p" by blast
    with a b d True show ?thesis
      by (cases "fmt = ''cloudflare''"; cases "host = ''@''") (auto simp: parse_record_def)
  next
    case False
    with a b d show ?thesis
      by (cases "fmt = ''cloudflare''"; cases "host = ''@''") (auto simp: parse_record_def)
  qed
qed

lemma parse_record_ok:
  assumes "\<not> lacks_attribute r"
    and "fmt = ''cloudflare'' \<and> emitted r \<longrightarrow> (\<exists>domain. get_domain info = Inr domain)"
  shows "\<exists>x. parse_record info fmt r = Inr x"
proof (cases "emitted r")
  case True
  with assms parse_record_emitted_ok [of r fmt info] show ?thesis by blast
next
  case False
  with assms(1) have "parse_record info fmt r = Inr None" by (simp add: parse_record_None_iff)
  then show ?thesis by simp
qed



subsection \<open>The loop\<close>

lemma parse_records_append:
  "parse_records info fmt items records =
     (case parse_records info fmt [] records of Inl e \<Rightarrow> Inl e | Inr xs \<Rightarrow> Inr (items @ xs))"
proof (induction records arbitrary: items)
  case Nil
  show ?case by simp
next
  case (Cons r rs)
  show ?case
  proof (cases "parse_record info fmt r")
    case (Inl e)
    then show ?thesis by simp
  next
    case (Inr x)
    show ?thesis
    proof (cases x)
      case None
      with Inr Cons.IH [of items] show ?thesis by simp
    next
      case (Some item)
      with Inr Cons.IH [of "items @ [item]"] Cons.IH [of "[item]"] show ?thesis
        by (simp split: sum.splits)
    qed
  qed
qed

lemma parse_records_Cons:
  "parse_records info fmt [] (r # rs) =
    (case parse_record info fmt r of
       Inl e \<Rightarrow> Inl e
     | Inr None \<Rightarrow> parse_records info fmt [] rs
     | Inr (Some item) \<Rightarrow>
        (case parse_records info fmt [] rs of Inl e \<Rightarrow> Inl e | Inr xs \<Rightarrow> Inr (item # xs)))"
proof (cases "parse_record info fmt r")
  case (Inl e)
  then show ?thesis by simp
next
  case (Inr x)
  show ?thesis
  proof (cases x)
    case None
    with Inr show ?thesis by simp
  next
    case (Some item)
    with Inr parse_records_append [of info fmt "[item]" rs] show ?thesis
      by (simp split: sum.splits)
  qed
qed

declare parse_records.simps(2) [simp del]

lemma parse_record_Some_emitted: "parse_record info fmt r = Inr (Some item) \<Longrightarrow> emitted r"
  by (drule parse_record_SomeD) (auto simp: emitted_def)

lemma parse_records_InrD:
  assumes "parse_records info fmt [] rs = Inr items"
  shows "list_all2 (\<lambda>r item. parse_record info fmt r = Inr (Some item)) (filter emitted rs) items \<and>
         (\<forall>r\<in>set rs. \<not> emitted r \<longrightarrow> parse_record info fmt r = Inr None)"
  using assms
proof (induction rs arbitrary: items)
  case Nil
  then show ?case by simp
next
  case (Cons r rs)
  show ?case
  proof (cases "parse_record info fmt r")
    case (Inl e)
    with Cons.prems show ?thesis by (simp add: parse_records_Cons)
  next
    case (Inr x)
    show ?thesis
    proof (cases x)
      case None
      with Inr have n: "parse_record info fmt r = Inr None" by simp
      then have "\<not> emitted r" by (simp add: parse_record_None_iff)
      with n Cons show ?thesis by (simp add: parse_records_Cons)
    next
      case (Some item)
      with Inr have s: "parse_record info fmt r = Inr (Some item)" by simp
      then have e: "emitted r" by (rule parse_record_Some_emitted)
      from s Cons.prems obtain xs where xs: "parse_records info fmt [] rs = Inr xs" "items = item # xs"
        by (auto simp: parse_records_Cons split: sum.splits)
      from Cons.IH [OF xs(1)] s e xs(2) show ?thesis by simp
    qed
  qed
qed

lemma parse_records_ok:
  assumes "\<forall>r\<in>set rs. \<exists>x. parse_record info fmt r = Inr x"
  shows "\<exists>items. parse_records info fmt [] rs = Inr items"
  using assms
proof (induction rs)
  case Nil
  show ?case by simp
next
  case (Cons r rs)
  then obtain x xs where "parse_record info fmt r = Inr x" "parse_records info fmt [] rs = Inr xs"
    by auto
  then show ?case by (cases x) (simp_all add: parse_records_Cons)
qed








subsection \<open>Evaluation and the whole function\<close>

lemmas eval_defs =
  parse_dns_info_def get_records_def get_domain_def document_def example_com_def other_org_def
  parse_records_Cons parse_record_def RECORD_TYPES_def
  str_int_def str_nat.simps digit_char_def
  host_field_def ttl_field_def class_field_def type_field_def value_field_def
  emitted_def lacks_attribute_def skipped_def

lemma str_int_decimal:
  "\<exists>digits. unsigned_decimal digits \<and> decimal_value digits = nat \<bar>i\<bar> \<and>
     str_int i = (if i < 0 then CHR ''-'' # digits else digits)"
  by (rule exI [of _ "str_nat (nat \<bar>i\<bar>)"])
     (simp add: unsigned_decimal_str_nat decimal_value_str_nat str_int_def)

lemma parse_dns_info_InrD:
  assumes "parse_dns_info info fmt = Inr items" and "get_records info = Inr records"
  shows "list_all2 (\<lambda>r item. parse_record info fmt r = Inr (Some item)) (filter emitted records) items"
proof -
  from assms have "parse_records info fmt [] records = Inr items"
    by (simp add: parse_dns_info_def split: if_splits)
  from parse_records_InrD [OF this] show ?thesis by simp
qed


subsection \<open>The entry point\<close>

lemma main_error:
  "try_body read_file json_loads filename output_format = Inl e \<Longrightarrow>
     main read_file json_loads filename output_format = ([''ERROR: '' @ str_error e], None)"
  by (simp add: main_def)

lemma main_decode_error:
  assumes "read_file filename = Inr text" and "json_loads text = Inl (JSONDecodeError msg)"
  shows "main read_file json_loads filename output_format = ([''ERROR: '' @ msg], None)"
proof -
  from assms have "try_body read_file json_loads filename output_format = Inl (JSONDecodeError msg)"
    by (simp add: try_body_def)
  from main_error [OF this] show ?thesis by simp
qed

section \<open>The properties\<close>

text \<open>
  C1 (amended). Take a document with the path \<^verbatim>\<open>Result.CustomHostRecords.Records\<close>, a
  non-empty list there, in which no entry lacks an attribute the loop reads for it
  (\<open>lacks_attribute\<close>), and with the domain name present when the format is
  \<^verbatim>\<open>cloudflare\<close> and some entry is emitted. Then \<^verbatim>\<open>parse_dns_info\<close> returns a list that
  holds, in the order of the input, exactly one record for each entry whose \<^verbatim>\<open>IsActive\<close> is
  true and whose \<^verbatim>\<open>RecordType\<close> is a key of the table; every other entry is skipped
  without an error.
\<close>

theorem C1_one_record_per_emitted_entry:
  assumes "get_records info = Inr records" and "records \<noteq> []"
    and "\<forall>r\<in>set records. \<not> lacks_attribute r"
    and "output_format = ''cloudflare'' \<and> (\<exists>r\<in>set records. emitted r) \<longrightarrow>
           (\<exists>domain. get_domain info = Inr domain)"
  shows "\<exists>items. parse_dns_info info output_format = Inr items \<and>
    list_all2 (\<lambda>r item. parse_record info output_format r = Inr (Some item))
      (filter emitted records) items \<and>
    (\<forall>r\<in>set records. \<not> emitted r \<longrightarrow> parse_record info output_format r = Inr None)"
proof -
  have "\<forall>r\<in>set records. \<exists>x. parse_record info output_format r = Inr x"
  proof
    fix r
    assume r: "r \<in> set records"
    with assms(3) have "\<not> lacks_attribute r" by simp
    moreover from r assms(4)
    have "output_format = ''cloudflare'' \<and> emitted r \<longrightarrow> (\<exists>domain. get_domain info = Inr domain)"
      by blast
    ultimately show "\<exists>x. parse_record info output_format r = Inr x"
      by (rule parse_record_ok)
  qed
  from parse_records_ok [OF this] obtain items where
    items: "parse_records info output_format [] records = Inr items" ..
  with assms(1,2) have "parse_dns_info info output_format = Inr items"
    by (simp add: parse_dns_info_def)
  with parse_records_InrD [OF items] show ?thesis by blast
qed

theorem C1_one_record_per_emitted_entry_witness:
  "get_records (document [rec_a_www, rec_inactive, rec_mx, rec_unknown, rec_txt] example_com) =
     Inr [rec_a_www, rec_inactive, rec_mx, rec_unknown, rec_txt] \<and>
   list_all (\<lambda>r. \<not> lacks_attribute r) [rec_a_www, rec_inactive, rec_mx, rec_unknown, rec_txt] \<and>
   get_domain (document [rec_a_www, rec_inactive, rec_mx, rec_unknown, rec_txt] example_com) =
     Inr ''example.com'' \<and>
   filter emitted [rec_a_www, rec_inactive, rec_mx, rec_unknown, rec_txt] =
     [rec_a_www, rec_mx, rec_txt] \<and>
   parse_dns_info (document [rec_a_www, rec_inactive, rec_mx, rec_unknown, rec_txt] example_com)
       ''cloudflare'' =
     Inr [[''www.example.com.'', ''300'', ''IN'', ''A'', ''1.2.3.4''],
          [''example.com'', ''3600'', ''IN'', ''MX'', ''10 mail.example.com''],
          [''example.com'', ''1800'', ''IN'', ''TXT'',
             [CHR 0x22] @ ''v=spf1 include:_spf.example.com ~all'' @ [CHR 0x22]]] \<and>
   (\<exists>items.
      parse_dns_info (document [rec_a_www, rec_inactive, rec_mx, rec_unknown, rec_txt] example_com)
        ''cloudflare'' = Inr items \<and>
      list_all2
        (\<lambda>r item.
           parse_record (document [rec_a_www, rec_inactive, rec_mx, rec_unknown, rec_txt] example_com)
             ''cloudflare'' r = Inr (Some item))
        (filter emitted [rec_a_www, rec_inactive, rec_mx, rec_unknown, rec_txt]) items \<and>
      (\<forall>r\<in>set [rec_a_www, rec_inactive, rec_mx, rec_unknown, rec_txt].
         \<not> emitted r \<longrightarrow>
         parse_record (document [rec_a_www, rec_inactive, rec_mx, rec_unknown, rec_txt] example_com)
           ''cloudflare'' r = Inr None))"
proof -
  let ?rs = "[rec_a_www, rec_inactive, rec_mx, rec_unknown, rec_txt]"
  let ?doc = "document ?rs example_com"
  have a: "get_records ?doc = Inr ?rs"
    by (simp add: get_records_def document_def)
  have b: "?rs \<noteq> []" by simp
  have c: "list_all (\<lambda>r. \<not> lacks_attribute r) ?rs"
    by (simp add: eval_defs rec_a_www_def rec_inactive_def rec_mx_def rec_unknown_def rec_txt_def)
  then have c': "\<forall>r\<in>set ?rs. \<not> lacks_attribute r"
    by (simp only: list_all_iff)
  have d: "get_domain ?doc = Inr ''example.com''"
    by (simp add: eval_defs)
  then have d': "''cloudflare'' = ''cloudflare'' \<and> (\<exists>r\<in>set ?rs. emitted r) \<longrightarrow>
      (\<exists>domain. get_domain ?doc = Inr domain)"
    by blast
  have e: "filter emitted ?rs = [rec_a_www, rec_mx, rec_txt]"
    by (simp add: eval_defs rec_a_www_def rec_inactive_def rec_mx_def rec_unknown_def rec_txt_def)
  have f: "parse_dns_info ?doc ''cloudflare'' =
     Inr [[''www.example.com.'', ''300'', ''IN'', ''A'', ''1.2.3.4''],
          [''example.com'', ''3600'', ''IN'', ''MX'', ''10 mail.example.com''],
          [''example.com'', ''1800'', ''IN'', ''TXT'',
             [CHR 0x22] @ ''v=spf1 include:_spf.example.com ~all'' @ [CHR 0x22]]]"
    by (simp add: eval_defs rec_a_www_def rec_inactive_def rec_mx_def rec_unknown_def rec_txt_def)
  from C1_one_record_per_emitted_entry [OF a b c' d'] a c d e f show ?thesis by blast
qed

text \<open>
  Without this restriction the property fails: the document below has the path, a non-empty list and the domain
  name, and \<^verbatim>\<open>parse_dns_info\<close> raises \<^verbatim>\<open>KeyError('Data')\<close> at its active A record, which
  has no \<^verbatim>\<open>Data\<close>.
\<close>

theorem C1_counterexample:
  "has_records_path (document [rec_no_data] example_com) \<and>
   get_records (document [rec_no_data] example_com) = Inr [rec_no_data] \<and>
   get_domain (document [rec_no_data] example_com) = Inr ''example.com'' \<and>
   emitted rec_no_data \<and>
   parse_dns_info (document [rec_no_data] example_com) ''default'' = Inl (KeyError ''Data'') \<and>
   parse_dns_info (document [rec_no_data] example_com) ''cloudflare'' = Inl (KeyError ''Data'')"
  by (simp add: eval_defs has_records_path_def rec_no_data_def)

text \<open>
  C2. With the format \<^verbatim>\<open>cloudflare\<close>, the host field of every emitted record is the text
  that the document holds under \<^verbatim>\<open>Result.DomainBasicDetails.DomainName\<close>, as it stands,
  when the entry's \<^verbatim>\<open>Host\<close> is \<^verbatim>\<open>@\<close>, and otherwise \<^verbatim>\<open>Host\<close>, a dot, that text and a
  final dot. The emitted records are paired, in order, with the entries that pass both
  filters.
\<close>

theorem C2_cloudflare_host:
  assumes "parse_dns_info info ''cloudflare'' = Inr items" and "get_records info = Inr records"
  shows "list_all2
    (\<lambda>r item. \<exists>host domain d res details.
       Host r = Some host \<and> info = Mapping d \<and> Result d = Some (Mapping res) \<and>
       DomainBasicDetails res = Some details \<and> DomainName details = Some domain \<and>
       host_field item = (if host = ''@'' then domain else host @ ''.'' @ domain @ ''.''))
    (filter emitted records) items"
proof (rule list_all2_mono [OF parse_dns_info_InrD [OF assms]])
  fix r item
  assume "parse_record info ''cloudflare'' r = Inr (Some item)"
  from parse_record_SomeD [OF this] obtain host domain val ttl name where
    h: "Host r = Some host" and g: "get_domain info = Inr domain" and
    i: "item = [if host = ''@'' then domain else host @ ''.'' @ domain @ ''.'',
                str_int ttl, ''IN'', name, val]"
    by auto
  from g obtain d res details where
    "info = Mapping d" "Result d = Some (Mapping res)"
    "DomainBasicDetails res = Some details" "DomainName details = Some domain"
    by (auto simp: get_domain_Inr_iff)
  with h i show "\<exists>host domain d res details.
       Host r = Some host \<and> info = Mapping d \<and> Result d = Some (Mapping res) \<and>
       DomainBasicDetails res = Some details \<and> DomainName details = Some domain \<and>
       host_field item = (if host = ''@'' then domain else host @ ''.'' @ domain @ ''.'')"
    by (simp add: host_field_def)
qed

theorem C2_cloudflare_host_witness:
  "parse_dns_info (document [rec_a_apex, rec_inactive, rec_a_www] other_org) ''cloudflare'' =
     Inr [[''other.org'', ''300'', ''IN'', ''A'', ''1.2.3.4''],
     [''www.other.org.'', ''300'', ''IN'', ''A'', ''1.2.3.4'']] \<and>
   get_records (document [rec_a_apex, rec_inactive, rec_a_www] other_org) =
     Inr [rec_a_apex, rec_inactive, rec_a_www] \<and>
   list_all2
    (\<lambda>r item. \<exists>host domain d res details.
       Host r = Some host \<and> document [rec_a_apex, rec_inactive, rec_a_www] other_org = Mapping d \<and> Result d = Some (Mapping res) \<and>
       DomainBasicDetails res = Some details \<and> DomainName details = Some domain \<and>
       host_field item = (if host = ''@'' then domain else host @ ''.'' @ domain @ ''.''))
    (filter emitted [rec_a_apex, rec_inactive, rec_a_www])
    [[''other.org'', ''300'', ''IN'', ''A'', ''1.2.3.4''],
     [''www.other.org.'', ''300'', ''IN'', ''A'', ''1.2.3.4'']] \<and>
   map host_field [[''other.org'', ''300'', ''IN'', ''A'', ''1.2.3.4''],
     [''www.other.org.'', ''300'', ''IN'', ''A'', ''1.2.3.4'']] = [''other.org'', ''www.other.org.'']"
proof -
  have a: "parse_dns_info (document [rec_a_apex, rec_inactive, rec_a_www] other_org) ''cloudflare'' =
     Inr [[''other.org'', ''300'', ''IN'', ''A'', ''1.2.3.4''],
     [''www.other.org.'', ''300'', ''IN'', ''A'', ''1.2.3.4'']]"
    by (simp add: eval_defs rec_a_apex_def rec_inactive_def rec_a_www_def)
  have b: "get_records (document [rec_a_apex, rec_inactive, rec_a_www] other_org) =
     Inr [rec_a_apex, rec_inactive, rec_a_www]"
    by (simp add: get_records_def document_def)
  have c: "map host_field [[''other.org'', ''300'', ''IN'', ''A'', ''1.2.3.4''],
     [''www.other.org.'', ''300'', ''IN'', ''A'', ''1.2.3.4'']] = [''other.org'', ''www.other.org.'']"
    by (simp add: host_field_def)
  from C2_cloudflare_host [OF a b] a b c show ?thesis by blast
qed

text \<open>
  C3 (amended). The value field of every emitted MX record is \<^verbatim>\<open>str(Priority)\<close>, one space,
  and \<^verbatim>\<open>Data\<close>. The rendering of the priority is the decimal numeral of its absolute
  value, without leading zeros and without a plus sign, after a minus sign exactly when the
  priority is negative.
\<close>

theorem C3_mx_value:
  assumes "parse_dns_info info output_format = Inr items" and "get_records info = Inr records"
  shows "list_all2
    (\<lambda>r item. type_field item = ''MX'' \<longrightarrow>
       (\<exists>priority data digits. Priority r = Some priority \<and> Data r = Some data \<and>
          value_field item = str_int priority @ '' '' @ data \<and>
          unsigned_decimal digits \<and> decimal_value digits = nat \<bar>priority\<bar> \<and>
          str_int priority = (if priority < 0 then CHR ''-'' # digits else digits)))
    (filter emitted records) items"
proof (rule list_all2_mono [OF parse_dns_info_InrD [OF assms]])
  fix r item
  assume "parse_record info output_format r = Inr (Some item)"
  from parse_record_SomeD [OF this] obtain name data val host' ttl where
    d: "Data r = Some data" and
    v: "if name = ''MX'' then \<exists>p. Priority r = Some p \<and> val = str_int p @ '' '' @ data
        else if name = ''TXT'' then val = [CHR 0x22] @ data @ [CHR 0x22] else val = data" and
    i: "item = [host', str_int ttl, ''IN'', name, val]"
    by blast
  show "type_field item = ''MX'' \<longrightarrow>
       (\<exists>priority data digits. Priority r = Some priority \<and> Data r = Some data \<and>
          value_field item = str_int priority @ '' '' @ data \<and>
          unsigned_decimal digits \<and> decimal_value digits = nat \<bar>priority\<bar> \<and>
          str_int priority = (if priority < 0 then CHR ''-'' # digits else digits))"
  proof
    assume "type_field item = ''MX''"
    with i have "name = ''MX''" by (simp add: type_field_def)
    with v obtain p where p: "Priority r = Some p" "val = str_int p @ '' '' @ data" by auto
    from str_int_decimal [of p] obtain digits where
      "unsigned_decimal digits" "decimal_value digits = nat \<bar>p\<bar>"
      "str_int p = (if p < 0 then CHR ''-'' # digits else digits)" by blast
    with p d i show "\<exists>priority data digits. Priority r = Some priority \<and> Data r = Some data \<and>
          value_field item = str_int priority @ '' '' @ data \<and>
          unsigned_decimal digits \<and> decimal_value digits = nat \<bar>priority\<bar> \<and>
          str_int priority = (if priority < 0 then CHR ''-'' # digits else digits)"
      by (auto simp: value_field_def)
  qed
qed

theorem C3_mx_value_witness:
  "parse_dns_info (document [rec_mx, rec_a_www, rec_mx_negative] example_com) ''default'' =
     Inr [[''@'', ''3600'', ''IN'', ''MX'', ''10 mail.example.com''],
          [''www'', ''300'', ''IN'', ''A'', ''1.2.3.4''],
          [''@'', ''3600'', ''IN'', ''MX'', ''-5 mail.example.com'']] \<and>
   get_records (document [rec_mx, rec_a_www, rec_mx_negative] example_com) =
     Inr [rec_mx, rec_a_www, rec_mx_negative] \<and>
   list_all2
    (\<lambda>r item. type_field item = ''MX'' \<longrightarrow>
       (\<exists>priority data digits. Priority r = Some priority \<and> Data r = Some data \<and>
          value_field item = str_int priority @ '' '' @ data \<and>
          unsigned_decimal digits \<and> decimal_value digits = nat \<bar>priority\<bar> \<and>
          str_int priority = (if priority < 0 then CHR ''-'' # digits else digits)))
    (filter emitted [rec_mx, rec_a_www, rec_mx_negative])
    [[''@'', ''3600'', ''IN'', ''MX'', ''10 mail.example.com''],
     [''www'', ''300'', ''IN'', ''A'', ''1.2.3.4''],
     [''@'', ''3600'', ''IN'', ''MX'', ''-5 mail.example.com'']]"
proof -
  have a: "parse_dns_info (document [rec_mx, rec_a_www, rec_mx_negative] example_com) ''default'' =
     Inr [[''@'', ''3600'', ''IN'', ''MX'', ''10 mail.example.com''],
          [''www'', ''300'', ''IN'', ''A'', ''1.2.3.4''],
          [''@'', ''3600'', ''IN'', ''MX'', ''-5 mail.example.com'']]"
    by (simp add: eval_defs rec_mx_def rec_a_www_def rec_mx_negative_def)
  have b: "get_records (document [rec_mx, rec_a_www, rec_mx_negative] example_com) =
     Inr [rec_mx, rec_a_www, rec_mx_negative]"
    by (simp add: get_records_def document_def)
  from C3_mx_value [OF a b] a b show ?thesis by blast
qed

text \<open>
  Stated without the sign, the property fails for a negative priority: for \<open>-5\<close> the value field is
  \<^verbatim>\<open>-5 mail.example.com\<close>, which is no unsigned numeral followed by a space and the data.
\<close>

theorem C3_counterexample:
  "parse_dns_info (document [rec_mx_negative] example_com) ''default'' =
     Inr [[''@'', ''3600'', ''IN'', ''MX'', ''-5 mail.example.com'']] \<and>
   Priority rec_mx_negative = Some (- 5) \<and> Data rec_mx_negative = Some ''mail.example.com'' \<and>
   \<not> (\<exists>digits. unsigned_decimal digits \<and>
          value_field [''@'', ''3600'', ''IN'', ''MX'', ''-5 mail.example.com''] =
            digits @ '' '' @ ''mail.example.com'')"
proof -
  have a: "parse_dns_info (document [rec_mx_negative] example_com) ''default'' =
     Inr [[''@'', ''3600'', ''IN'', ''MX'', ''-5 mail.example.com'']]"
    by (simp add: eval_defs rec_mx_negative_def)
  have b: "Priority rec_mx_negative = Some (- 5)" "Data rec_mx_negative = Some ''mail.example.com''"
    by (simp_all add: rec_mx_negative_def)
  have c: "\<not> unsigned_decimal digits"
    if "''-5 mail.example.com'' = digits @ '' '' @ ''mail.example.com''" for digits
  proof -
    have "''-5'' @ '' mail.example.com'' = digits @ '' mail.example.com''"
      using that by simp
    then have "digits = ''-5''" by (simp only: append_same_eq)
    then show ?thesis by (simp add: unsigned_decimal_def is_digit_def)
  qed
  from a b c show ?thesis by (auto simp: value_field_def)
qed

text \<open>
  C4. The value field of every emitted TXT record is the entry's \<^verbatim>\<open>Data\<close> between two
  double quotes (\<open>CHR 0x22\<close>); the data itself is copied unchanged, so double quotes inside
  it are not escaped.
\<close>

theorem C4_txt_value:
  assumes "parse_dns_info info output_format = Inr items" and "get_records info = Inr records"
  shows "list_all2
    (\<lambda>r item. type_field item = ''TXT'' \<longrightarrow>
       (\<exists>data. Data r = Some data \<and> value_field item = [CHR 0x22] @ data @ [CHR 0x22]))
    (filter emitted records) items"
proof (rule list_all2_mono [OF parse_dns_info_InrD [OF assms]])
  fix r item
  assume "parse_record info output_format r = Inr (Some item)"
  from parse_record_SomeD [OF this] obtain name data val host' ttl where
    d: "Data r = Some data" and
    v: "if name = ''MX'' then \<exists>p. Priority r = Some p \<and> val = str_int p @ '' '' @ data
        else if name = ''TXT'' then val = [CHR 0x22] @ data @ [CHR 0x22] else val = data" and
    i: "item = [host', str_int ttl, ''IN'', name, val]"
    by blast
  show "type_field item = ''TXT'' \<longrightarrow>
       (\<exists>data. Data r = Some data \<and> value_field item = [CHR 0x22] @ data @ [CHR 0x22])"
  proof
    assume "type_field item = ''TXT''"
    with i have "name = ''TXT''" by (simp add: type_field_def)
    with v have "val = [CHR 0x22] @ data @ [CHR 0x22]" by simp
    with d i show "\<exists>data. Data r = Some data \<and> value_field item = [CHR 0x22] @ data @ [CHR 0x22]"
      by (simp add: value_field_def)
  qed
qed

theorem C4_txt_value_witness:
  "parse_dns_info (document [rec_txt, rec_txt_quotes] example_com) ''default'' =
     Inr [[''@'', ''1800'', ''IN'', ''TXT'',
             [CHR 0x22] @ ''v=spf1 include:_spf.example.com ~all'' @ [CHR 0x22]],
          [''www'', ''60'', ''IN'', ''TXT'',
             [CHR 0x22, CHR ''a'', CHR 0x22, CHR ''b'', CHR 0x22, CHR ''c'', CHR 0x22]]] \<and>
   get_records (document [rec_txt, rec_txt_quotes] example_com) = Inr [rec_txt, rec_txt_quotes] \<and>
   list_all2
    (\<lambda>r item. type_field item = ''TXT'' \<longrightarrow>
       (\<exists>data. Data r = Some data \<and> value_field item = [CHR 0x22] @ data @ [CHR 0x22]))
    (filter emitted [rec_txt, rec_txt_quotes])
    [[''@'', ''1800'', ''IN'', ''TXT'',
        [CHR 0x22] @ ''v=spf1 include:_spf.example.com ~all'' @ [CHR 0x22]],
     [''www'', ''60'', ''IN'', ''TXT'',
        [CHR 0x22, CHR ''a'', CHR 0x22, CHR ''b'', CHR 0x22, CHR ''c'', CHR 0x22]]]"
proof -
  have a: "parse_dns_info (document [rec_txt, rec_txt_quotes] example_com) ''default'' =
     Inr [[''@'', ''1800'', ''IN'', ''TXT'',
             [CHR 0x22] @ ''v=spf1 include:_spf.example.com ~all'' @ [CHR 0x22]],
          [''www'', ''60'', ''IN'', ''TXT'',
             [CHR 0x22, CHR ''a'', CHR 0x22, CHR ''b'', CHR 0x22, CHR ''c'', CHR 0x22]]]"
    by (simp add: eval_defs rec_txt_def rec_txt_quotes_def)
  have b: "get_records (document [rec_txt, rec_txt_quotes] example_com) = Inr [rec_txt, rec_txt_quotes]"
    by (simp add: get_records_def document_def)
  from C4_txt_value [OF a b] a b show ?thesis by blast
qed

text \<open>
  C5. Every emitted record is the list of five fields: the host, \<^verbatim>\<open>str(Ttl)\<close>, the constant
  \<^verbatim>\<open>IN\<close>, the table's name for the entry's \<^verbatim>\<open>RecordType\<close>, and the value. The class field
  is \<^verbatim>\<open>IN\<close> under every format. The value is \<^verbatim>\<open>Data\<close>, changed only for MX and TXT.
  When the format is not \<^verbatim>\<open>cloudflare\<close> (so for \<^verbatim>\<open>default\<close>) the host field is the entry's
  \<^verbatim>\<open>Host\<close> unchanged, also when it is \<^verbatim>\<open>@\<close>.
\<close>

theorem C5_record_shape:
  assumes "parse_dns_info info output_format = Inr items" and "get_records info = Inr records"
  shows "list_all2
    (\<lambda>r item. \<exists>host ttl code name data.
       Host r = Some host \<and> Ttl r = Some ttl \<and> RecordType r = Some code \<and>
       map_of RECORD_TYPES code = Some name \<and> Data r = Some data \<and>
       item = [host_field item, str_int ttl, ''IN'', name, value_field item] \<and>
       class_field item = ''IN'' \<and>
       (output_format \<noteq> ''cloudflare'' \<longrightarrow> host_field item = host) \<and>
       (name = ''MX'' \<longrightarrow> (\<exists>priority. Priority r = Some priority \<and>
                          value_field item = str_int priority @ '' '' @ data)) \<and>
       (name = ''TXT'' \<longrightarrow> value_field item = [CHR 0x22] @ data @ [CHR 0x22]) \<and>
       (name \<noteq> ''MX'' \<and> name \<noteq> ''TXT'' \<longrightarrow> value_field item = data))
    (filter emitted records) items"
proof (rule list_all2_mono [OF parse_dns_info_InrD [OF assms]])
  fix r item
  assume "parse_record info output_format r = Inr (Some item)"
  from parse_record_SomeD [OF this]
  show "\<exists>host ttl code name data.
       Host r = Some host \<and> Ttl r = Some ttl \<and> RecordType r = Some code \<and>
       map_of RECORD_TYPES code = Some name \<and> Data r = Some data \<and>
       item = [host_field item, str_int ttl, ''IN'', name, value_field item] \<and>
       class_field item = ''IN'' \<and>
       (output_format \<noteq> ''cloudflare'' \<longrightarrow> host_field item = host) \<and>
       (name = ''MX'' \<longrightarrow> (\<exists>priority. Priority r = Some priority \<and>
                          value_field item = str_int priority @ '' '' @ data)) \<and>
       (name = ''TXT'' \<longrightarrow> value_field item = [CHR 0x22] @ data @ [CHR 0x22]) \<and>
       (name \<noteq> ''MX'' \<and> name \<noteq> ''TXT'' \<longrightarrow> value_field item = data)"
    by (auto simp: host_field_def class_field_def value_field_def split: if_splits)
qed

theorem C5_record_shape_witness:
  "parse_dns_info (document [rec_a_apex, rec_inactive, rec_mx, rec_unknown, rec_a_www] example_com) ''default'' =
     Inr [[''@'', ''300'', ''IN'', ''A'', ''1.2.3.4''],
          [''@'', ''3600'', ''IN'', ''MX'', ''10 mail.example.com''],
          [''www'', ''300'', ''IN'', ''A'', ''1.2.3.4'']] \<and>
   parse_dns_info (document [rec_a_apex, rec_inactive, rec_mx, rec_unknown, rec_a_www] example_com) ''cloudflare'' =
     Inr [[''example.com'', ''300'', ''IN'', ''A'', ''1.2.3.4''],
          [''example.com'', ''3600'', ''IN'', ''MX'', ''10 mail.example.com''],
          [''www.example.com.'', ''300'', ''IN'', ''A'', ''1.2.3.4'']] \<and>
   get_records (document [rec_a_apex, rec_inactive, rec_mx, rec_unknown, rec_a_www] example_com) = Inr [rec_a_apex, rec_inactive, rec_mx, rec_unknown, rec_a_www] \<and>
   list_all2
    (\<lambda>r item. \<exists>host ttl code name data.
       Host r = Some host \<and> Ttl r = Some ttl \<and> RecordType r = Some code \<and>
       map_of RECORD_TYPES code = Some name \<and> Data r = Some data \<and>
       item = [host_field item, str_int ttl, ''IN'', name, value_field item] \<and>
       class_field item = ''IN'' \<and>
       (''default'' \<noteq> ''cloudflare'' \<longrightarrow> host_field item = host) \<and>
       (name = ''MX'' \<longrightarrow> (\<exists>priority. Priority r = Some priority \<and>
                          value_field item = str_int priority @ '' '' @ data)) \<and>
       (name = ''TXT'' \<longrightarrow> value_field item = [CHR 0x22] @ data @ [CHR 0x22]) \<and>
       (name \<noteq> ''MX'' \<and> name \<noteq> ''TXT'' \<longrightarrow> value_field item = data))
    (filter emitted [rec_a_apex, rec_inactive, rec_mx, rec_unknown, rec_a_www])
    [[''@'', ''300'', ''IN'', ''A'', ''1.2.3.4''],
          [''@'', ''3600'', ''IN'', ''MX'', ''10 mail.example.com''],
          [''www'', ''300'', ''IN'', ''A'', ''1.2.3.4'']] \<and>
   list_all2
    (\<lambda>r item. \<exists>host ttl code name data.
       Host r = Some host \<and> Ttl r = Some ttl \<and> RecordType r = Some code \<and>
       map_of RECORD_TYPES code = Some name \<and> Data r = Some data \<and>
       item = [host_field item, str_int ttl, ''IN'', name, value_field item] \<and>
       class_field item = ''IN'' \<and>
       (''cloudflare'' \<noteq> ''cloudflare'' \<longrightarrow> host_field item = host) \<and>
       (name = ''MX'' \<longrightarrow> (\<exists>priority. Priority r = Some priority \<and>
                          value_field item = str_int priority @ '' '' @ data)) \<and>
       (name = ''TXT'' \<longrightarrow> value_field item = [CHR 0x22] @ data @ [CHR 0x22]) \<and>
       (name \<noteq> ''MX'' \<and> name \<noteq> ''TXT'' \<longrightarrow> value_field item = data))
    (filter emitted [rec_a_apex, rec_inactive, rec_mx, rec_unknown, rec_a_www])
    [[''example.com'', ''300'', ''IN'', ''A'', ''1.2.3.4''],
          [''example.com'', ''3600'', ''IN'', ''MX'', ''10 mail.example.com''],
          [''www.example.com.'', ''300'', ''IN'', ''A'', ''1.2.3.4'']] \<and>
   map class_field [[''@'', ''300'', ''IN'', ''A'', ''1.2.3.4''],
          [''@'', ''3600'', ''IN'', ''MX'', ''10 mail.example.com''],
          [''www'', ''300'', ''IN'', ''A'', ''1.2.3.4'']] = [''IN'', ''IN'', ''IN'']"
proof -
  have a: "parse_dns_info (document [rec_a_apex, rec_inactive, rec_mx, rec_unknown, rec_a_www] example_com) ''default'' =
     Inr [[''@'', ''300'', ''IN'', ''A'', ''1.2.3.4''],
          [''@'', ''3600'', ''IN'', ''MX'', ''10 mail.example.com''],
          [''www'', ''300'', ''IN'', ''A'', ''1.2.3.4'']]"
    by (simp add: eval_defs rec_a_apex_def rec_inactive_def rec_mx_def rec_unknown_def rec_a_www_def)
  have c: "parse_dns_info (document [rec_a_apex, rec_inactive, rec_mx, rec_unknown, rec_a_www] example_com) ''cloudflare'' =
     Inr [[''example.com'', ''300'', ''IN'', ''A'', ''1.2.3.4''],
          [''example.com'', ''3600'', ''IN'', ''MX'', ''10 mail.example.com''],
          [''www.example.com.'', ''300'', ''IN'', ''A'', ''1.2.3.4'']]"
    by (simp add: eval_defs rec_a_apex_def rec_inactive_def rec_mx_def rec_unknown_def rec_a_www_def)
  have b: "get_records (document [rec_a_apex, rec_inactive, rec_mx, rec_unknown, rec_a_www] example_com) = Inr [rec_a_apex, rec_inactive, rec_mx, rec_unknown, rec_a_www]"
    by (simp add: get_records_def document_def)
  have d: "map class_field [[''@'', ''300'', ''IN'', ''A'', ''1.2.3.4''],
          [''@'', ''3600'', ''IN'', ''MX'', ''10 mail.example.com''],
          [''www'', ''300'', ''IN'', ''A'', ''1.2.3.4'']] = [''IN'', ''IN'', ''IN'']"
    by (simp add: class_field_def)
  from C5_record_shape [OF a b] C5_record_shape [OF c b] a b c d show ?thesis by blast
qed

text \<open>
  C6 (amended). A document without the path \<^verbatim>\<open>Result.CustomHostRecords.Records\<close> makes
  \<^verbatim>\<open>parse_dns_info\<close> fail, whatever the format, and no record is returned. When the
  document and the values under \<^verbatim>\<open>Result\<close> and \<^verbatim>\<open>CustomHostRecords\<close>, where present, are
  mappings, the exception is \<^verbatim>\<open>KeyError('JSON is in an unexpected format')\<close>; otherwise it is
  that \<^verbatim>\<open>KeyError\<close> or a \<^verbatim>\<open>TypeError\<close> of the membership test or the subscript.
\<close>

theorem C6_missing_path_fails:
  assumes "\<not> has_records_path info"
  shows "(\<exists>e. parse_dns_info info output_format = Inl e \<and>
            (e = KeyError ''JSON is in an unexpected format'' \<or> (\<exists>msg. e = TypeError msg))) \<and>
         (mappings_on_path info \<longrightarrow> parse_dns_info info output_format = Inl (KeyError ''JSON is in an unexpected format''))"
proof -
  from assms obtain e where e: "get_records info = Inl e"
    by (cases "get_records info") (auto simp: has_records_path_iff)
  then have p: "parse_dns_info info output_format = Inl e"
    by (simp add: parse_dns_info_def)
  from get_records_InlD [OF e] have "e = KeyError ''JSON is in an unexpected format'' \<or> (\<exists>msg. e = TypeError msg)"
    by (simp add: unexpected_format_def)
  moreover have "e = KeyError ''JSON is in an unexpected format''" if "mappings_on_path info"
    using get_records_mappings [OF that e] by (simp add: unexpected_format_def)
  ultimately show ?thesis using p by blast
qed

theorem C6_missing_path_fails_witness:
  "\<not> has_records_path doc_no_records \<and> mappings_on_path doc_no_records \<and>
   parse_dns_info doc_no_records ''default'' = Inl (KeyError ''JSON is in an unexpected format'') \<and>
   \<not> has_records_path doc_empty_object \<and> mappings_on_path doc_empty_object \<and>
   parse_dns_info doc_empty_object ''cloudflare'' = Inl (KeyError ''JSON is in an unexpected format'') \<and>
   \<not> has_records_path (Other (Array [])) \<and>
   (\<exists>e. parse_dns_info (Other (Array [])) ''default'' = Inl e \<and>
        (e = KeyError ''JSON is in an unexpected format'' \<or> (\<exists>msg. e = TypeError msg))) \<and>
   parse_dns_info (Other (Array [])) ''default'' = Inl (KeyError ''JSON is in an unexpected format'')"
proof -
  have a: "\<not> has_records_path doc_no_records" "mappings_on_path doc_no_records"
    by (simp_all add: has_records_path_def mappings_on_path_def doc_no_records_def)
  have b: "\<not> has_records_path doc_empty_object" "mappings_on_path doc_empty_object"
    by (simp_all add: has_records_path_def mappings_on_path_def doc_empty_object_def)
  have c: "\<not> has_records_path (Other (Array []))"
    by (simp add: has_records_path_def)
  have d: "parse_dns_info (Other (Array [])) ''default'' = Inl (KeyError ''JSON is in an unexpected format'')"
    by (simp add: parse_dns_info_def get_records_def unexpected_format_def)
  from C6_missing_path_fails [OF a(1), of "''default''"]
    C6_missing_path_fails [OF b(1), of "''cloudflare''"]
    C6_missing_path_fails [OF c, of "''default''"] a b c d
  show ?thesis by blast
qed

text \<open>
  With the failure fixed to that \<^verbatim>\<open>KeyError\<close> the property fails: the three documents
  below (the JSON texts \<^verbatim>\<open>{"Result": null}\<close>, \<^verbatim>\<open>{"Result": "Has CustomHostRecords"}\<close> and
  \<^verbatim>\<open>["Result"]\<close>) lack the path, and lines 67 to 69 raise a \<^verbatim>\<open>TypeError\<close> on them before
  the \<^verbatim>\<open>else\<close> branch is reached.
\<close>

theorem C6_counterexample:
  "\<not> has_records_path doc_result_null \<and>
   parse_dns_info doc_result_null ''default'' =
     Inl (TypeError (''argument of type '' @ quoted ''NoneType'' @ '' is not iterable'')) \<and>
   \<not> has_records_path doc_result_text \<and>
   parse_dns_info doc_result_text ''default'' =
     Inl (TypeError ''string indices must be integers'') \<and>
   \<not> has_records_path doc_array \<and>
   parse_dns_info doc_array ''default'' =
     Inl (TypeError ''list indices must be integers or slices, not str'')"
  by (simp add: has_records_path_def parse_dns_info_def get_records_def
      doc_result_null_def doc_result_text_def doc_array_def)

text \<open>
  C7. A document whose \<^verbatim>\<open>Records\<close> list is present and empty makes \<^verbatim>\<open>parse_dns_info\<close> raise
  \<^verbatim>\<open>Exception('No DNS records found in JSON')\<close>, whatever the format; no record is returned.
\<close>

theorem C7_empty_records_fails:
  assumes "get_records info = Inr []"
  shows "parse_dns_info info output_format = Inl (Exception ''No DNS records found in JSON'')"
  using assms by (simp add: parse_dns_info_def)

theorem C7_empty_records_fails_witness:
  "get_records (document [] example_com) = Inr [] \<and>
   parse_dns_info (document [] example_com) ''default'' = Inl (Exception ''No DNS records found in JSON'') \<and>
   parse_dns_info (document [] example_com) ''cloudflare'' = Inl (Exception ''No DNS records found in JSON'')"
proof -
  have a: "get_records (document [] example_com) = Inr []"
    by (simp add: get_records_def document_def)
  show ?thesis
    using a C7_empty_records_fails [OF a, of "''default''"] C7_empty_records_fails [OF a, of "''cloudflare''"]
    by simp
qed




text \<open>
  C9. The file \<^verbatim>\<open>data.json\<close> holds the text \<^verbatim>\<open>not json\<close>, on which \<^verbatim>\<open>json.loads\<close> raises
  \<^verbatim>\<open>JSONDecodeError\<close> with the message \<^verbatim>\<open>Expecting value: line 1 column 1 (char 0)\<close>. The
  script prints one line, the message after \<^verbatim>\<open>ERROR: \<close>, without the file name: the
  exception is an \<^verbatim>\<open>Exception\<close>, so the first \<^verbatim>\<open>except\<close> clause takes it and the second
  clause, which names the file, is never reached.
\<close>

theorem C9_decode_error_line:
  "main (\<lambda>filename. Inr ''not json'')
        (\<lambda>text. Inl (JSONDecodeError ''Expecting value: line 1 column 1 (char 0)''))
        ''data.json'' ''default'' =
     ([''ERROR: Expecting value: line 1 column 1 (char 0)''], None) \<and>
   main (\<lambda>filename. Inr ''not json'')
        (\<lambda>text. Inl (JSONDecodeError ''Expecting value: line 1 column 1 (char 0)''))
        ''other.json'' ''default'' =
     ([''ERROR: Expecting value: line 1 column 1 (char 0)''], None)"
  by (simp add: main_def try_body_def)




end
